theory Spec2Isabelle
  imports Main
begin

section \<open>The chat front end (rag-frontend/src/App.js)\<close>

text \<open>
  The repository's only program text is the React component \<open>App\<close>. Its state is the
  seven \<open>useState\<close> cells; its operations are the event handlers \<open>checkHealth\<close>,
  \<open>uploadFiles\<close>, \<open>removeDocument\<close>, \<open>askQuestion\<close> and \<open>resetChat\<close>. Each handler is
  modelled as a function from the state before the click to the list of HTTP requests
  it sends and the state after the handler has finished. What the network answers is
  an argument of the handler (\<open>fetch_outcome\<close>), and so is the wall-clock text that
  \<open>new Date().toLocaleTimeString()\<close> yields.

  A handler is taken as one step: no other handler runs between its \<open>fetch\<close> and the
  response. JavaScript strings are modelled as \<open>string\<close>, so characters are limited to
  the code points below 256.
\<close>

subsection \<open>Data\<close>

text \<open>A browser \<open>File\<close>: the component reads only its \<open>name\<close>; the content goes to the backend.\<close>

record js_file =
  name :: string
  content :: string

text \<open>
  One element of \<open>conversation\<close>, the object literal of lines 130--135. The fields are
  prefixed with \<open>turn_\<close> because \<open>question\<close> is also a state cell. \<open>None\<close> in
  \<open>turn_answer\<close> is JavaScript's \<open>undefined\<close> (a response without \<open>answer\<close>).
\<close>

record turn =
  turn_question :: string
  turn_answer :: "string option"
  turn_sources :: "string list"
  turn_timestamp :: string

text \<open>
  The parsed JSON body of a response, restricted to the fields the component reads.
  \<open>None\<close> is an absent field (\<open>undefined\<close>). A body that is a number, a string, a
  boolean or an array has none of these fields and reads as the record with every
  field \<open>None\<close>.
\<close>

record response_data =
  data_status :: "string option"
  chunks_indexed :: "nat option"
  detail :: "string option"
  answer :: "string option"
  sources :: "string list option"

text \<open>
  \<open>response.json()\<close> yields the parsed body, or yields \<open>null\<close> (the body is the JSON
  text \<open>null\<close>), or throws an error with a message. Reading a field of \<open>null\<close> throws
  a \<open>TypeError\<close>; \<open>JsonNull\<close> carries the message of that error, which depends on the
  browser.
\<close>

datatype json_body = Json response_data | JsonNull string | NotJson string

text \<open>\<open>await fetch(...)\<close> either rejects with an error or yields a response with its \<open>ok\<close> flag.\<close>

datatype fetch_outcome = Rejected string | Response bool json_body

datatype request =
    GetHealth
  | PostIndex "js_file list" nat nat
  | PostAsk string
  | PostClearMemory

record app_state =
  files :: "js_file list"
  question :: string
  conversation :: "turn list"
  loading :: bool
  status :: string
  backendStatus :: "string option"
  currentDocuments :: "string list"

text \<open>The initial values of the \<open>useState\<close> cells (lines 5--11).\<close>

definition initial_state :: app_state where
  "initial_state =
     \<lparr>files = [], question = [], conversation = [], loading = False, status = [],
      backendStatus = Some ''unknown'', currentDocuments = []\<rparr>"

subsection \<open>JavaScript helpers\<close>

text \<open>White space and line terminators of ECMAScript below code point 256.\<close>

definition js_whitespace :: "char \<Rightarrow> bool" where
  "js_whitespace c \<longleftrightarrow> of_char c \<in> {9, 10, 11, 12, 13, 32, 160 :: nat}"

text \<open>\<open>String.prototype.trim\<close>.\<close>

definition trim :: "string \<Rightarrow> string" where
  "trim t = rev (dropWhile js_whitespace (rev (dropWhile js_whitespace t)))"

text \<open>Decimal text of a number, as a template literal renders it.\<close>

fun show_nat :: "nat \<Rightarrow> string" where
  "show_nat n =
     (if n < 10 then [char_of (48 + n)]
      else show_nat (n div 10) @ [char_of (48 + n mod 10)])"

declare show_nat.simps [simp del]

text \<open>\<open>`${x}`\<close> for a value that may be \<open>undefined\<close>.\<close>

definition template_string :: "string option \<Rightarrow> string" where
  "template_string v = (case v of None \<Rightarrow> ''undefined'' | Some t \<Rightarrow> t)"

definition template_number :: "nat option \<Rightarrow> string" where
  "template_number v = (case v of None \<Rightarrow> ''undefined'' | Some n \<Rightarrow> show_nat n)"

text \<open>\<open>data.detail || fallback\<close>: \<open>undefined\<close> and the empty string are falsy.\<close>

definition detail_or :: "response_data \<Rightarrow> string \<Rightarrow> string" where
  "detail_or d fallback =
     (case detail d of None \<Rightarrow> fallback | Some t \<Rightarrow> if t = [] then fallback else t)"

text \<open>\<open>data.sources || []\<close>: an array, even an empty one, is truthy.\<close>

definition sources_or_empty :: "response_data \<Rightarrow> string list" where
  "sources_or_empty d = (case sources d of None \<Rightarrow> [] | Some l \<Rightarrow> l)"

definition healthy :: "app_state \<Rightarrow> bool" where
  "healthy s \<longleftrightarrow> backendStatus s = Some ''healthy''"

subsection \<open>Handlers\<close>

text \<open>\<open>checkHealth\<close> (lines 30--40). It does not look at \<open>response.ok\<close>.\<close>

definition checkHealth :: "fetch_outcome \<Rightarrow> app_state \<Rightarrow> request list \<times> app_state" where
  "checkHealth outcome s =
     ([GetHealth],
      (let failed = (\<lambda>message. s\<lparr>backendStatus := Some ''error'',
              status := ''Backend Error: '' @ message @
                        ''. Make sure the backend is running on port 8000.''\<rparr>)
       in case outcome of
            Rejected message \<Rightarrow> failed message
          | Response ok (NotJson message) \<Rightarrow> failed message
          | Response ok (JsonNull message) \<Rightarrow> failed message
          | Response ok (Json d) \<Rightarrow>
              s\<lparr>backendStatus := data_status d,
                status := ''Backend: '' @ template_string (data_status d)\<rparr>))"

text \<open>
  \<open>uploadFiles\<close> (lines 42--86). With an OK response whose body is \<open>null\<close>,
  \<open>setCurrentDocuments\<close> (line 73) has run when \<open>data.chunks_indexed\<close> (line 74)
  throws, so lines 76--77 are skipped and the \<open>catch\<close> block sets the status.
\<close>

definition uploadFiles :: "fetch_outcome \<Rightarrow> app_state \<Rightarrow> request list \<times> app_state" where
  "uploadFiles outcome s =
     (if length (files s) = 0 then
        ([], s\<lparr>status := ''Please select files first''\<rparr>)
      else if \<not> healthy s then
        ([], s\<lparr>status := ''Backend is not healthy. Please check the backend first.''\<rparr>)
      else
        let s1 = s\<lparr>loading := True, status := ''Uploading and indexing documents...''\<rparr>;
            thrown = (\<lambda>message. s1\<lparr>status := ''Error: '' @ message\<rparr>);
            s2 = (case outcome of
                    Rejected message \<Rightarrow> thrown message
                  | Response ok (NotJson message) \<Rightarrow> thrown message
                  | Response ok (JsonNull message) \<Rightarrow>
                      if ok then
                        s1\<lparr>currentDocuments := map name (files s),
                           status := ''Error: '' @ message\<rparr>
                      else thrown message
                  | Response ok (Json d) \<Rightarrow>
                      if ok then
                        s1\<lparr>currentDocuments := map name (files s),
                           status := show_nat (length (files s)) @
                             '' document(s) indexed successfully! '' @
                             template_number (chunks_indexed d) @ '' chunks created.'',
                           conversation := [],
                           files := []\<rparr>
                      else
                        s1\<lparr>status := ''Error: '' @ detail_or d ''Failed to index documents''\<rparr>)
        in ([PostIndex (files s) 1200 150], s2\<lparr>loading := False\<rparr>))"

text \<open>\<open>removeDocument\<close> (lines 88--94). No request is sent.\<close>

definition removeDocument :: "string \<Rightarrow> app_state \<Rightarrow> request list \<times> app_state" where
  "removeDocument documentName s =
     (let s1 = s\<lparr>currentDocuments := filter (\<lambda>doc. doc \<noteq> documentName) (currentDocuments s)\<rparr>;
          s2 = (if length (currentDocuments s) = 1 then s1\<lparr>conversation := []\<rparr> else s1)
      in ([], s2\<lparr>status := ''Document '' @ [CHR 0x22] @ documentName @ [CHR 0x22] @
                          '' removed.''\<rparr>))"

text \<open>
  \<open>askQuestion\<close> (lines 96--148); \<open>now\<close> is \<open>new Date().toLocaleTimeString()\<close>. With a
  \<open>null\<close> body, \<open>data.answer\<close> (line 132) or \<open>data.detail\<close> (line 141) throws before any
  cell is set.
\<close>

definition askQuestion :: "fetch_outcome \<Rightarrow> string \<Rightarrow> app_state \<Rightarrow> request list \<times> app_state" where
  "askQuestion outcome now s =
     (if trim (question s) = [] then
        ([], s\<lparr>status := ''Please enter a question''\<rparr>)
      else if \<not> healthy s then
        ([], s\<lparr>status := ''Backend is not healthy. Please check the backend first.''\<rparr>)
      else if length (currentDocuments s) = 0 then
        ([], s\<lparr>status := ''Please upload documents first before asking questions.''\<rparr>)
      else
        let s1 = s\<lparr>loading := True, status := ''Processing your question...''\<rparr>;
            thrown = (\<lambda>message. s1\<lparr>status := ''Error: '' @ message\<rparr>);
            s2 = (case outcome of
                    Rejected message \<Rightarrow> thrown message
                  | Response ok (NotJson message) \<Rightarrow> thrown message
                  | Response ok (JsonNull message) \<Rightarrow> thrown message
                  | Response ok (Json d) \<Rightarrow>
                      if ok then
                        s1\<lparr>conversation := conversation s @
                             [\<lparr>turn_question = question s,
                               turn_answer = answer d,
                               turn_sources = sources_or_empty d,
                               turn_timestamp = now\<rparr>],
                           question := [],
                           status := ''Question answered successfully!''\<rparr>
                      else
                        s1\<lparr>status := ''Error: '' @ detail_or d ''Failed to process question''\<rparr>)
        in ([PostAsk (question s)], s2\<lparr>loading := False\<rparr>))"

text \<open>\<open>resetChat\<close> (lines 150--171). The body is parsed only when the response is not OK.\<close>

definition resetChat :: "fetch_outcome \<Rightarrow> app_state \<Rightarrow> request list \<times> app_state" where
  "resetChat outcome s =
     (if \<not> healthy s then
        ([], s\<lparr>status := ''Backend is not healthy. Please check the backend first.''\<rparr>)
      else
        ([PostClearMemory],
         (case outcome of
            Rejected message \<Rightarrow> s\<lparr>status := ''Error: '' @ message\<rparr>
          | Response ok body \<Rightarrow>
              if ok then
                s\<lparr>conversation := [],
                  status := ''Chat reset successfully! AI has forgotten the previous conversation.''\<rparr>
              else
                (case body of
                   NotJson message \<Rightarrow> s\<lparr>status := ''Error: '' @ message\<rparr>
                 | JsonNull message \<Rightarrow> s\<lparr>status := ''Error: '' @ message\<rparr>
                 | Json d \<Rightarrow> s\<lparr>status := ''Error: '' @ detail_or d ''Failed to reset chat''\<rparr>))))"

text \<open>
  The value that the promise of \<open>askQuestion\<close> resolves to. The three guards leave with
  a bare \<open>return;\<close> (lines 99, 104, 109) and the function ends after the
  \<open>try\<close> statement without a \<open>return\<close>, so the value is \<open>undefined\<close> on every path.
\<close>

datatype js_value =
    Undefined
  | JsString string
  | JsArray "js_value list"
  | JsObject "(string \<times> js_value) list"

definition askQuestion_returns :: "fetch_outcome \<Rightarrow> string \<Rightarrow> app_state \<Rightarrow> js_value" where
  "askQuestion_returns outcome now s =
     (if trim (question s) = [] then Undefined
      else if \<not> healthy s then Undefined
      else if length (currentDocuments s) = 0 then Undefined
      else Undefined)"

subsection \<open>The backend session\<close>

text \<open>
  Modelled from the spec: the backend that answers the requests (\<open>rag.py\<close>,
  \<open>fast_api.py\<close>) is not among the sources. By section 3 a session owns one
  VectorIndex and one ConversationMemory; by sections 4.5 and 6 ClearMemory empties
  the memory and has no effect on the VectorIndex. The Index and Ask operations need
  the embedder and the generator and are parameters of \<open>serve\<close>, which gives the effect
  of one request on the session.
\<close>

record 'e session =
  vector_index :: "'e list"
  memory :: "turn list"

definition clear_memory :: "'e session \<Rightarrow> 'e session" where
  "clear_memory b = b\<lparr>memory := []\<rparr>"

fun serve ::
  "(js_file list \<Rightarrow> nat \<Rightarrow> nat \<Rightarrow> 'e session \<Rightarrow> 'e session) \<Rightarrow>
   (string \<Rightarrow> 'e session \<Rightarrow> 'e session) \<Rightarrow> request \<Rightarrow> 'e session \<Rightarrow> 'e session" where
  "serve index_op ask_op GetHealth b = b"
| "serve index_op ask_op (PostIndex uploaded chunk_size chunk_overlap) b =
     index_op uploaded chunk_size chunk_overlap b"
| "serve index_op ask_op (PostAsk q) b = ask_op q b"
| "serve index_op ask_op PostClearMemory b = clear_memory b"

subsection \<open>The user interface as a sequence of events\<close>

text \<open>
  What the user and the browser can do to the component: the effect that runs once
  after mounting, the two \<open>onChange\<close> handlers (lines 221 and 279), the buttons, and
  the Enter key in the question box (\<open>handleKeyPress\<close>, lines 173--178).
\<close>

datatype event =
    Mount fetch_outcome
  | ClickRefresh fetch_outcome
  | ChangeFiles "js_file list"
  | ClickUpload fetch_outcome
  | ClickRemove string
  | ClickReset fetch_outcome
  | ChangeQuestion string
  | ClickSend fetch_outcome string
  | PressEnter fetch_outcome string

fun handle :: "event \<Rightarrow> app_state \<Rightarrow> request list \<times> app_state" where
  "handle (Mount outcome) s = checkHealth outcome s"
| "handle (ClickRefresh outcome) s = checkHealth outcome s"
| "handle (ChangeFiles selected) s = ([], s\<lparr>files := selected\<rparr>)"
| "handle (ClickUpload outcome) s = uploadFiles outcome s"
| "handle (ClickRemove doc) s = removeDocument doc s"
| "handle (ClickReset outcome) s = resetChat outcome s"
| "handle (ChangeQuestion t) s = ([], s\<lparr>question := t\<rparr>)"
| "handle (ClickSend outcome now) s = askQuestion outcome now s"
| "handle (PressEnter outcome now) s = askQuestion outcome now s"

text \<open>
  When the rendered page offers an event (lines 180--312): the file input and the
  upload button exist only while no document is listed, the remove and reset buttons
  and the chat only while one is; \<open>disabled\<close> attributes switch buttons off.
\<close>

fun enabled :: "event \<Rightarrow> app_state \<Rightarrow> bool" where
  "enabled (Mount outcome) s = (s = initial_state)"
| "enabled (ClickRefresh outcome) s = True"
| "enabled (ChangeFiles selected) s = (currentDocuments s = [])"
| "enabled (ClickUpload outcome) s =
     (currentDocuments s = [] \<and> \<not> loading s \<and> files s \<noteq> [] \<and> healthy s)"
| "enabled (ClickRemove doc) s = (doc \<in> set (currentDocuments s))"
| "enabled (ClickReset outcome) s = (currentDocuments s \<noteq> [])"
| "enabled (ChangeQuestion t) s = (currentDocuments s \<noteq> [] \<and> \<not> loading s)"
| "enabled (ClickSend outcome now) s =
     (currentDocuments s \<noteq> [] \<and> \<not> loading s \<and> trim (question s) \<noteq> [])"
| "enabled (PressEnter outcome now) s = (currentDocuments s \<noteq> [] \<and> \<not> loading s)"

fun run :: "event list \<Rightarrow> app_state \<Rightarrow> request list \<times> app_state" where
  "run [] s = ([], s)"
| "run (e # es) s =
     (case handle e s of (sent, s1) \<Rightarrow>
        (case run es s1 of (sent_later, s2) \<Rightarrow> (sent @ sent_later, s2)))"

fun all_enabled :: "event list \<Rightarrow> app_state \<Rightarrow> bool" where
  "all_enabled [] s = True"
| "all_enabled (e # es) s = (enabled e s \<and> all_enabled es (snd (handle e s)))"

text \<open>The frame of a handler that touches nothing but the status line.\<close>

definition only_status_changed :: "app_state \<Rightarrow> app_state \<Rightarrow> bool" where
  "only_status_changed s s' \<longleftrightarrow> s' = s\<lparr>status := status s'\<rparr>"

text \<open>
  One answered question: the text typed, the body of the OK response and the clock
  text. \<open>ask_events\<close> are the two events it takes, \<open>turn_of\<close> the turn it records.
\<close>

type_synonym exchange = "string \<times> response_data \<times> string"

definition ask_events :: "exchange \<Rightarrow> event list" where
  "ask_events x =
     (case x of (q, d, now) \<Rightarrow> [ChangeQuestion q, ClickSend (Response True (Json d)) now])"

definition turn_of :: "exchange \<Rightarrow> turn" where
  "turn_of x =
     (case x of (q, d, now) \<Rightarrow>
        \<lparr>turn_question = q, turn_answer = answer d,
         turn_sources = sources_or_empty d, turn_timestamp = now\<rparr>)"

subsection \<open>Chunker\<close>

text \<open>
  Modelled from the spec: the chunker \<open>chunk(text, chunk_size, overlap)\<close> belongs to the
  backend (\<open>rag.py\<close>), which is not among the sources; the front end only sends
  \<open>chunk_size = 1200\<close> and \<open>chunk_overlap = 150\<close> with the upload. Following section 4.1:
  the configuration is valid when both numbers are positive and the overlap is below
  the chunk size, anything else is \<open>InvalidConfig\<close>; the windows are \<open>chunk_size\<close>
  characters long and start at \<open>0\<close>, \<open>step\<close>, \<open>2 * step\<close>, ... with
  \<open>step = chunk_size - overlap\<close>; the window that reaches the end of the text is the
  last one and may be shorter. An empty text has no window. The test \<open>step = 0\<close> in
  \<open>windows\<close> cannot succeed for a valid configuration.
\<close>

datatype chunk_error = InvalidConfig

fun windows :: "nat \<Rightarrow> nat \<Rightarrow> string \<Rightarrow> string list" where
  "windows chunk_size step t =
     (if t = [] then []
      else if length t \<le> chunk_size \<or> step = 0 then [take chunk_size t]
      else take chunk_size t # windows chunk_size step (drop step t))"

declare windows.simps [simp del]

definition chunk :: "string \<Rightarrow> int \<Rightarrow> int \<Rightarrow> chunk_error + string list" where
  "chunk text chunk_size overlap =
     (if 0 < chunk_size \<and> 0 < overlap \<and> overlap < chunk_size
      then Inr (windows (nat chunk_size) (nat (chunk_size - overlap)) text)
      else Inl InvalidConfig)"

text \<open>
  The concatenation of the spans with the overlap regions left out: the first chunk
  whole, every later chunk without its first \<open>overlap\<close> characters.
\<close>

definition join_spans :: "nat \<Rightarrow> string list \<Rightarrow> string" where
  "join_spans overlap cs =
     (case cs of [] \<Rightarrow> [] | c # rest \<Rightarrow> c @ concat (map (drop overlap) rest))"

subsection \<open>Concrete sessions\<close>

definition example_file :: js_file where
  "example_file = \<lparr>name = ''a.txt'', content = ''Paris is the capital of France.''\<rparr>"

definition example_data :: response_data where
  "example_data =
     \<lparr>data_status = Some ''healthy'', chunks_indexed = Some 1, detail = None,
      answer = Some ''Paris'', sources = Some [''a.txt'']\<rparr>"

definition example_ok :: fetch_outcome where
  "example_ok = Response True (Json example_data)"

definition example_indexed :: app_state where
  "example_indexed =
     initial_state\<lparr>backendStatus := Some ''healthy'', currentDocuments := [''a.txt''],
                   question := ''What is the capital of France?''\<rparr>"

definition example_chatting :: app_state where
  "example_chatting =
     example_indexed\<lparr>conversation :=
       [turn_of (''Where is Berlin?'', example_data, ''09:59:00'')]\<rparr>"

definition example_exchange :: "nat \<Rightarrow> exchange" where
  "example_exchange k = (''Question '' @ show_nat k, example_data, ''10:00:0'' @ show_nat k)"

text \<open>A file is uploaded to a healthy backend and a question is typed.\<close>

definition upload_and_type :: "event list" where
  "upload_and_type =
     [Mount example_ok,
      ChangeFiles [example_file],
      ClickUpload example_ok,
      ChangeQuestion ''What is the capital of France?'']"


text \<open>
  Two selected files carry the same name (files picked from different folders), are
  indexed, and one question is answered.
\<close>

definition duplicate_upload :: "event list" where
  "duplicate_upload =
     [Mount example_ok,
      ChangeFiles [example_file, example_file\<lparr>content := ''Berlin is the capital of Germany.''\<rparr>],
      ClickUpload example_ok,
      ChangeQuestion ''What is the capital of France?'',
      ClickSend example_ok ''10:00:00'']"

text \<open>After that both entries are removed and a new file is selected.\<close>

definition select_after_duplicates :: "event list" where
  "select_after_duplicates =
     duplicate_upload @ [ClickRemove ''a.txt'', ChangeFiles [example_file\<lparr>name := ''b.md''\<rparr>]]"

section \<open>Properties of the handlers\<close>

subsection \<open>When a handler contacts the backend\<close>

lemma askQuestion_sends_iff:
  "fst (askQuestion outcome now s) \<noteq> [] \<longleftrightarrow>
     trim (question s) \<noteq> [] \<and> healthy s \<and> currentDocuments s \<noteq> []"
  by (simp add: askQuestion_def Let_def)

lemma uploadFiles_sends_iff:
  "fst (uploadFiles outcome s) \<noteq> [] \<longleftrightarrow> files s \<noteq> [] \<and> healthy s"
  by (simp add: uploadFiles_def Let_def)

lemma resetChat_sends_iff:
  "fst (resetChat outcome s) \<noteq> [] \<longleftrightarrow> healthy s"
  by (simp add: resetChat_def)

lemma only_status_changed_frame:
  assumes "only_status_changed s s'"
  shows "conversation s' = conversation s" and "currentDocuments s' = currentDocuments s"
    and "files s' = files s" and "question s' = question s"
    and "backendStatus s' = backendStatus s" and "loading s' = loading s"
proof -
  from assms have eq: "s' = s\<lparr>status := status s'\<rparr>"
    by (simp add: only_status_changed_def)
  show "conversation s' = conversation s" by (subst eq) simp
  show "currentDocuments s' = currentDocuments s" by (subst eq) simp
  show "files s' = files s" by (subst eq) simp
  show "question s' = question s" by (subst eq) simp
  show "backendStatus s' = backendStatus s" by (subst eq) simp
  show "loading s' = loading s" by (subst eq) simp
qed

subsection \<open>Asking\<close>

text \<open>
  Claim C1, as amended. Whenever a non-blank question is asked while the backend status
  is \<open>healthy\<close>, at least one document is listed and the backend call succeeds (the
  response is OK and its body parses to a value other than \<open>null\<close>), the handler sends
  one ask request and the conversation afterwards is the conversation before,
  unchanged and in the same order, followed by exactly one new turn that holds the
  question text, the answer, the sources of the response (none when the response has
  no \<open>sources\<close>) and the timestamp. The handler returns no value: the answer and the
  sources are handed over only as fields of the appended turn.
\<close>

theorem askQuestion_appends_turn:
  assumes "trim (question s) \<noteq> []"
    and "healthy s"
    and "currentDocuments s \<noteq> []"
    and "outcome = Response True (Json d)"
  shows "fst (askQuestion outcome now s) = [PostAsk (question s)]
         \<and> conversation (snd (askQuestion outcome now s)) =
             conversation s @
               [\<lparr>turn_question = question s, turn_answer = answer d,
                 turn_sources = (case sources d of None \<Rightarrow> [] | Some listed \<Rightarrow> listed),
                 turn_timestamp = now\<rparr>]
         \<and> askQuestion_returns outcome now s = Undefined"
  using assms
  by (simp add: askQuestion_def askQuestion_returns_def sources_or_empty_def Let_def)

theorem askQuestion_appends_turn_witness:
  "trim (question example_chatting) \<noteq> []
   \<and> healthy example_chatting
   \<and> currentDocuments example_chatting \<noteq> []
   \<and> example_ok = Response True (Json example_data)
   \<and> fst (askQuestion example_ok ''10:00:00'' example_chatting) =
       [PostAsk ''What is the capital of France?'']
   \<and> conversation (snd (askQuestion example_ok ''10:00:00'' example_chatting)) =
       [\<lparr>turn_question = ''Where is Berlin?'', turn_answer = Some ''Paris'',
         turn_sources = [''a.txt''], turn_timestamp = ''09:59:00''\<rparr>,
        \<lparr>turn_question = ''What is the capital of France?'', turn_answer = Some ''Paris'',
         turn_sources = [''a.txt''], turn_timestamp = ''10:00:00''\<rparr>]
   \<and> askQuestion_returns example_ok ''10:00:00'' example_chatting = Undefined"
proof -
  have asked: "trim (question example_chatting) \<noteq> []"
    by (simp add: example_chatting_def example_indexed_def trim_def js_whitespace_def)
  have up: "healthy example_chatting"
    by (simp add: example_chatting_def example_indexed_def healthy_def)
  have docs: "currentDocuments example_chatting \<noteq> []"
    by (simp add: example_chatting_def example_indexed_def)
  have ok: "example_ok = Response True (Json example_data)"
    by (simp add: example_ok_def)
  show ?thesis
    using askQuestion_appends_turn [OF asked up docs ok, of "''10:00:00''"] asked up docs ok
    by (simp add: example_chatting_def example_indexed_def initial_state_def turn_of_def
          example_data_def sources_or_empty_def)
qed

text \<open>
  The claim as stated fails on its last part. After the page-offered events
  \<open>upload_and_type\<close> a successful ask appends the turn with the answer \<open>Paris\<close> and
  the source \<open>a.txt\<close>, but what the handler returns is \<open>undefined\<close>, not the answer
  and the sources.
\<close>

theorem askQuestion_returns_counterexample:
  "all_enabled (upload_and_type @ [ClickSend example_ok ''10:00:00'']) initial_state
   \<and> currentDocuments (snd (run upload_and_type initial_state)) = [''a.txt'']
   \<and> conversation (snd (askQuestion example_ok ''10:00:00''
        (snd (run upload_and_type initial_state)))) =
       [\<lparr>turn_question = ''What is the capital of France?'', turn_answer = Some ''Paris'',
         turn_sources = [''a.txt''], turn_timestamp = ''10:00:00''\<rparr>]
   \<and> askQuestion_returns example_ok ''10:00:00'' (snd (run upload_and_type initial_state)) =
       Undefined
   \<and> askQuestion_returns example_ok ''10:00:00'' (snd (run upload_and_type initial_state)) \<noteq>
       JsObject [(''answer'', JsString ''Paris''), (''sources'', JsArray [JsString ''a.txt''])]"
  by (simp add: upload_and_type_def example_ok_def example_data_def example_file_def
        initial_state_def checkHealth_def uploadFiles_def askQuestion_def
        askQuestion_returns_def healthy_def Let_def trim_def js_whitespace_def
        sources_or_empty_def)

text \<open>
  The page offers the question box and the send button only while a document is
  listed (line 236), so an ask in the Empty state is always a direct call of the
  handler.
\<close>

lemma ask_offered_only_when_indexed:
  "enabled (ClickSend outcome now) s \<Longrightarrow> currentDocuments s \<noteq> []"
  "enabled (PressEnter outcome now) s \<Longrightarrow> currentDocuments s \<noteq> []"
  by simp_all




text \<open>
  Claim C3. When the backend call of an ask fails, the conversation is exactly what it
  was before. The failures are: \<open>fetch\<close> throws, \<open>response.json()\<close> throws, reading the
  body throws because it is \<open>null\<close>, or the response is not OK.
\<close>

theorem askQuestion_failure_keeps_log:
  "conversation (snd (askQuestion (Rejected message) now s)) = conversation s
   \<and> conversation (snd (askQuestion (Response ok (NotJson message)) now s)) = conversation s
   \<and> conversation (snd (askQuestion (Response ok (JsonNull message)) now s)) = conversation s
   \<and> conversation (snd (askQuestion (Response False body) now s)) = conversation s"
  by (cases body) (simp_all add: askQuestion_def Let_def)

lemma fetch_outcome_cases:
  "(\<exists>d. outcome = Response True (Json d)) \<or> (\<exists>message. outcome = Rejected message)
   \<or> (\<exists>ok message. outcome = Response ok (NotJson message))
   \<or> (\<exists>ok message. outcome = Response ok (JsonNull message))
   \<or> (\<exists>body. outcome = Response False body)"
proof (cases outcome)
  case (Rejected message)
  then show ?thesis by simp
next
  case (Response ok body)
  then show ?thesis by (cases body; cases ok) auto
qed

subsection \<open>The conversation has no window\<close>

lemma run_Cons_state: "snd (run (e # es) s) = snd (run es (snd (handle e s)))"
  by (simp split: prod.splits)

lemma run_append: "snd (run (es @ es') s) = snd (run es' (snd (run es s)))"
proof (induction es arbitrary: s)
  case Nil
  show ?case by simp
next
  case (Cons e es)
  have "snd (run ((e # es) @ es') s) = snd (run (es @ es') (snd (handle e s)))"
    using run_Cons_state [of e "es @ es'" s] by simp
  also have "\<dots> = snd (run es' (snd (run es (snd (handle e s)))))"
    by (rule Cons.IH)
  also have "\<dots> = snd (run es' (snd (run (e # es) s)))"
    by (simp only: run_Cons_state)
  finally show ?case .
qed

lemma ask_events_step:
  assumes "healthy s" and "currentDocuments s \<noteq> []" and "trim (fst x) \<noteq> []"
  shows "healthy (snd (run (ask_events x) s))"
    and "currentDocuments (snd (run (ask_events x) s)) = currentDocuments s"
    and "conversation (snd (run (ask_events x) s)) = conversation s @ [turn_of x]"
  using assms
  by (auto simp: ask_events_def turn_of_def askQuestion_def healthy_def Let_def
           split: prod.splits)

text \<open>
  Claim C4, as amended. The conversation kept by the component has no window size and
  nothing is evicted from it: every successful ask appends its turn and keeps all
  earlier ones, so after any number of successful asks the log is the earlier log
  followed by the new turns, oldest first, and its length has grown by their number.
\<close>

theorem asks_never_evict:
  assumes "healthy s" and "currentDocuments s \<noteq> []"
    and "\<forall>x \<in> set asks. trim (fst x) \<noteq> []"
  shows "conversation (snd (run (concat (map ask_events asks)) s)) =
           conversation s @ map turn_of asks
         \<and> length (conversation (snd (run (concat (map ask_events asks)) s))) =
           length (conversation s) + length asks"
proof -
  have "conversation (snd (run (concat (map ask_events asks)) s)) =
          conversation s @ map turn_of asks"
    using assms
  proof (induction asks arbitrary: s)
    case Nil
    then show ?case by simp
  next
    case (Cons x asks)
    let ?s1 = "snd (run (ask_events x) s)"
    from Cons.prems have x: "trim (fst x) \<noteq> []" by simp
    have "conversation (snd (run (concat (map ask_events asks)) ?s1)) =
            conversation ?s1 @ map turn_of asks"
      using Cons.IH [of ?s1] Cons.prems ask_events_step [OF Cons.prems(1,2) x] by simp
    then show ?case
      using ask_events_step(3) [OF Cons.prems(1,2) x] by (simp add: run_append)
  qed
  then show ?thesis by simp
qed

theorem asks_never_evict_witness:
  "healthy example_indexed \<and> currentDocuments example_indexed \<noteq> []
   \<and> trim (fst (example_exchange 1)) \<noteq> []
   \<and> trim (fst (example_exchange 2)) \<noteq> []
   \<and> trim (fst (example_exchange 3)) \<noteq> []
   \<and> conversation (snd (run (concat (map ask_events
         [example_exchange 1, example_exchange 2, example_exchange 3])) example_indexed)) =
       [turn_of (example_exchange 1), turn_of (example_exchange 2), turn_of (example_exchange 3)]"
proof -
  have h: "healthy example_indexed"
    by (simp add: example_indexed_def healthy_def)
  have d: "currentDocuments example_indexed \<noteq> []"
    by (simp add: example_indexed_def)
  have q: "\<forall>x \<in> set [example_exchange 1, example_exchange 2, example_exchange 3].
         trim (fst x) \<noteq> []"
    by (simp add: example_exchange_def trim_def js_whitespace_def)
  have c: "conversation example_indexed = []"
    by (simp add: example_indexed_def initial_state_def)
  show ?thesis
    using asks_never_evict [OF h d q] h d q c by simp
qed

text \<open>
  The claim as stated fails for the window size 2: three successful asks leave three
  turns in the log, and the oldest one is still its first element.
\<close>

theorem window_counterexample:
  "length (conversation (snd (run (concat (map ask_events
       [example_exchange 1, example_exchange 2, example_exchange 3])) example_indexed))) = 3
   \<and> \<not> length (conversation (snd (run (concat (map ask_events
       [example_exchange 1, example_exchange 2, example_exchange 3])) example_indexed))) \<le> 2
   \<and> hd (conversation (snd (run (concat (map ask_events
       [example_exchange 1, example_exchange 2, example_exchange 3])) example_indexed))) =
     turn_of (example_exchange 1)"
  by (simp add: ask_events_def example_exchange_def example_indexed_def initial_state_def
        askQuestion_def healthy_def Let_def trim_def js_whitespace_def turn_of_def)

subsection \<open>Removing a document\<close>

text \<open>
  Claim C5, as amended. \<open>removeDocument\<close> never fails and never contacts the backend:
  for every name it drops the entries equal to that name from the list of documents
  shown, so the name is not listed afterwards, and reports the removal in the status
  line; for a name that is not listed the list stays as it is. Nothing is sent that
  could remove entries from the backend's index.
\<close>

theorem removeDocument_local_only:
  "fst (removeDocument documentName s) = []
   \<and> currentDocuments (snd (removeDocument documentName s)) =
       filter (\<lambda>doc. doc \<noteq> documentName) (currentDocuments s)
   \<and> documentName \<notin> set (currentDocuments (snd (removeDocument documentName s)))
   \<and> status (snd (removeDocument documentName s)) =
       ''Document '' @ [CHR 0x22] @ documentName @ [CHR 0x22] @ '' removed.''
   \<and> (documentName \<notin> set (currentDocuments s) \<longrightarrow>
        currentDocuments (snd (removeDocument documentName s)) = currentDocuments s)"
proof -
  have "documentName \<notin> set (currentDocuments s) \<Longrightarrow>
          filter (\<lambda>doc. doc \<noteq> documentName) (currentDocuments s) = currentDocuments s"
    by (induction "currentDocuments s") (auto simp: filter_id_conv)
  then show ?thesis
    by (simp add: removeDocument_def Let_def)
qed

theorem removeDocument_local_only_witness:
  "''ghost.txt'' \<notin> set (currentDocuments example_chatting)
   \<and> fst (removeDocument ''ghost.txt'' example_chatting) = []
   \<and> currentDocuments (snd (removeDocument ''ghost.txt'' example_chatting)) = [''a.txt'']"
  using removeDocument_local_only [of "''ghost.txt''" example_chatting]
  by (simp add: example_chatting_def example_indexed_def)

text \<open>
  The claim as stated fails: removing a name that is not listed is reported as a
  removal, not as a failure, and removing the listed document sends no request, so
  the backend keeps its chunks.
\<close>

theorem removeDocument_counterexample:
  "''ghost.txt'' \<notin> set (currentDocuments example_indexed)
   \<and> status (snd (removeDocument ''ghost.txt'' example_indexed)) =
       ''Document '' @ [CHR 0x22] @ ''ghost.txt'' @ [CHR 0x22] @ '' removed.''
   \<and> ''a.txt'' \<in> set (currentDocuments example_indexed)
   \<and> fst (removeDocument ''a.txt'' example_indexed) = []"
  by (simp add: removeDocument_def example_indexed_def initial_state_def Let_def)

text \<open>
  With pairwise different names the last-document rule works: removing the only
  listed document empties the list and the conversation, and removing one of several
  leaves a document listed and the conversation untouched.
\<close>

lemma removeDocument_distinct_names:
  assumes "distinct (currentDocuments s)" and "documentName \<in> set (currentDocuments s)"
  shows "length (currentDocuments s) = 1 \<Longrightarrow>
           currentDocuments (snd (removeDocument documentName s)) = []
           \<and> conversation (snd (removeDocument documentName s)) = []"
    and "1 < length (currentDocuments s) \<Longrightarrow>
           currentDocuments (snd (removeDocument documentName s)) \<noteq> []
           \<and> conversation (snd (removeDocument documentName s)) = conversation s"
proof -
  show "currentDocuments (snd (removeDocument documentName s)) = []
        \<and> conversation (snd (removeDocument documentName s)) = []"
    if "length (currentDocuments s) = 1"
  proof -
    from that assms(2) have "currentDocuments s = [documentName]"
      by (cases "currentDocuments s") auto
    then show ?thesis
      by (simp add: removeDocument_def Let_def)
  qed
  show "currentDocuments (snd (removeDocument documentName s)) \<noteq> []
        \<and> conversation (snd (removeDocument documentName s)) = conversation s"
    if "1 < length (currentDocuments s)"
  proof -
    from that assms(1) have "\<exists>other \<in> set (currentDocuments s). other \<noteq> documentName"
      by (cases "currentDocuments s"; cases "tl (currentDocuments s)") auto
    then have "filter (\<lambda>doc. doc \<noteq> documentName) (currentDocuments s) \<noteq> []"
      by (simp add: filter_empty_conv)
    with that show ?thesis
      by (simp add: removeDocument_def Let_def)
  qed
qed

text \<open>
  Claim C6 fails on the code when two listed documents share a name. The run below
  uses only events the page offers: two files named \<open>a.txt\<close> are uploaded and a
  question is answered. Removing \<open>a.txt\<close> then filters out both entries, so no
  document remains, but the test \<open>currentDocuments.length === 1\<close> is false and the
  conversation survives.
\<close>

theorem removeDocument_duplicate_names:
  "all_enabled (duplicate_upload @ [ClickRemove ''a.txt'']) initial_state
   \<and> currentDocuments (snd (run duplicate_upload initial_state)) = [''a.txt'', ''a.txt'']
   \<and> conversation (snd (run duplicate_upload initial_state)) =
       [turn_of (''What is the capital of France?'', example_data, ''10:00:00'')]
   \<and> currentDocuments (snd (removeDocument ''a.txt'' (snd (run duplicate_upload initial_state)))) = []
   \<and> conversation (snd (removeDocument ''a.txt'' (snd (run duplicate_upload initial_state)))) =
       [turn_of (''What is the capital of France?'', example_data, ''10:00:00'')]"
  by (simp add: duplicate_upload_def example_ok_def example_data_def example_file_def
        initial_state_def checkHealth_def uploadFiles_def askQuestion_def removeDocument_def
        healthy_def Let_def trim_def js_whitespace_def turn_of_def sources_or_empty_def)

subsection \<open>Resetting the chat and uploading\<close>

text \<open>
  Claim C7. In every state with a healthy backend status, a reset that the backend
  answers with OK empties the conversation and changes nothing else but the status
  line: the listed documents and the selected files are as before. The only request
  sent is the one to \<open>/clear-memory\<close>, so the backend session keeps its VectorIndex
  and has its memory emptied, whatever the Index and Ask operations are.
\<close>

theorem resetChat_frame:
  assumes "healthy s"
    and "outcome = Response True body"
  shows "resetChat outcome s =
           ([PostClearMemory],
            s\<lparr>conversation := [],
              status := ''Chat reset successfully! AI has forgotten the previous conversation.''\<rparr>)
         \<and> conversation (snd (resetChat outcome s)) = []
         \<and> currentDocuments (snd (resetChat outcome s)) = currentDocuments s
         \<and> files (snd (resetChat outcome s)) = files s
         \<and> vector_index (fold (serve index_op ask_op) (fst (resetChat outcome s)) b) =
             vector_index b
         \<and> memory (fold (serve index_op ask_op) (fst (resetChat outcome s)) b) = []"
  using assms by (simp add: resetChat_def clear_memory_def)

theorem resetChat_frame_witness:
  "healthy example_chatting
   \<and> example_ok = Response True (Json example_data)
   \<and> conversation example_chatting \<noteq> []
   \<and> fst (resetChat example_ok example_chatting) = [PostClearMemory]
   \<and> conversation (snd (resetChat example_ok example_chatting)) = []
   \<and> currentDocuments (snd (resetChat example_ok example_chatting)) = [''a.txt'']
   \<and> vector_index (fold (serve (\<lambda>uploaded chunk_size chunk_overlap b. b) (\<lambda>q b. b))
        (fst (resetChat example_ok example_chatting))
        \<lparr>vector_index = [''Paris is the capital of France.''],
         memory = conversation example_chatting\<rparr>) = [''Paris is the capital of France.'']
   \<and> memory (fold (serve (\<lambda>uploaded chunk_size chunk_overlap b. b) (\<lambda>q b. b))
        (fst (resetChat example_ok example_chatting))
        \<lparr>vector_index = [''Paris is the capital of France.''],
         memory = conversation example_chatting\<rparr>) = []"
proof -
  have up: "healthy example_chatting"
    by (simp add: example_chatting_def example_indexed_def healthy_def)
  have ok: "example_ok = Response True (Json example_data)"
    by (simp add: example_ok_def)
  have logged: "conversation example_chatting \<noteq> []"
    by (simp add: example_chatting_def)
  have listed: "currentDocuments example_chatting = [''a.txt'']"
    by (simp add: example_chatting_def example_indexed_def)
  show ?thesis
    using resetChat_frame [OF up ok,
        of "\<lambda>uploaded chunk_size chunk_overlap b. b" "\<lambda>q b. b"
           "\<lparr>vector_index = [''Paris is the capital of France.''],
             memory = conversation example_chatting\<rparr>"] up ok logged listed
    by (simp add: clear_memory_def)
qed

text \<open>
  Claim C9, as amended. Whenever an upload is made with at least one file selected and
  a healthy backend status, the index request is sent. If the response is OK and its
  body parses to a value other than \<open>null\<close>, the conversation is empty afterwards and
  the list of documents is exactly the names of the uploaded files, in their order,
  although no reset was requested. If the response is OK and its body does not parse,
  the conversation and the list of documents are left as they were.
\<close>

theorem uploadFiles_replaces_documents:
  assumes "files s \<noteq> []"
    and "healthy s"
  shows "fst (uploadFiles outcome s) = [PostIndex (files s) 1200 150]
         \<and> conversation (snd (uploadFiles (Response True (Json d)) s)) = []
         \<and> currentDocuments (snd (uploadFiles (Response True (Json d)) s)) =
             map name (files s)
         \<and> conversation (snd (uploadFiles (Response True (NotJson message)) s)) =
             conversation s
         \<and> currentDocuments (snd (uploadFiles (Response True (NotJson message)) s)) =
             currentDocuments s"
  using assms by (simp add: uploadFiles_def Let_def)

theorem uploadFiles_replaces_documents_witness:
  "files (example_chatting\<lparr>files := [example_file\<lparr>name := ''b.md''\<rparr>]\<rparr>) \<noteq> []
   \<and> healthy (example_chatting\<lparr>files := [example_file\<lparr>name := ''b.md''\<rparr>]\<rparr>)
   \<and> conversation (example_chatting\<lparr>files := [example_file\<lparr>name := ''b.md''\<rparr>]\<rparr>) \<noteq> []
   \<and> conversation (snd (uploadFiles (Response True (Json example_data))
         (example_chatting\<lparr>files := [example_file\<lparr>name := ''b.md''\<rparr>]\<rparr>))) = []
   \<and> currentDocuments (snd (uploadFiles (Response True (Json example_data))
         (example_chatting\<lparr>files := [example_file\<lparr>name := ''b.md''\<rparr>]\<rparr>))) = [''b.md'']
   \<and> currentDocuments (snd (uploadFiles (Response True (NotJson ''Unexpected end of JSON input''))
         (example_chatting\<lparr>files := [example_file\<lparr>name := ''b.md''\<rparr>]\<rparr>))) = [''a.txt'']"
proof -
  let ?s = "example_chatting\<lparr>files := [example_file\<lparr>name := ''b.md''\<rparr>]\<rparr>"
  have chosen: "files ?s \<noteq> []"
    by simp
  have up: "healthy ?s"
    by (simp add: example_chatting_def example_indexed_def healthy_def)
  show ?thesis
    using uploadFiles_replaces_documents
        [OF chosen up, of example_ok example_data "''Unexpected end of JSON input''"] chosen up
    by (simp add: example_chatting_def example_indexed_def example_file_def)
qed

text \<open>
  The claim as stated fails for OK responses. After \<open>select_after_duplicates\<close> the page
  offers the upload of \<open>b.md\<close> while one turn is recorded and no document is listed. If
  the OK response has a body that does not parse, the list of documents stays empty
  instead of becoming \<open>b.md\<close>, and the turn is kept. If the OK response has the body
  \<open>null\<close>, the list becomes \<open>b.md\<close> but the turn is kept.
\<close>

theorem uploadFiles_ok_counterexample:
  "all_enabled (select_after_duplicates @
       [ClickUpload (Response True (NotJson ''Unexpected end of JSON input''))]) initial_state
   \<and> map name (files (snd (run select_after_duplicates initial_state))) = [''b.md'']
   \<and> length (conversation (snd (run select_after_duplicates initial_state))) = 1
   \<and> currentDocuments (snd (uploadFiles (Response True (NotJson ''Unexpected end of JSON input''))
        (snd (run select_after_duplicates initial_state)))) = []
   \<and> length (conversation (snd (uploadFiles
        (Response True (NotJson ''Unexpected end of JSON input''))
        (snd (run select_after_duplicates initial_state))))) = 1
   \<and> currentDocuments (snd (uploadFiles
        (Response True (JsonNull ''Cannot read properties of null''))
        (snd (run select_after_duplicates initial_state)))) = [''b.md'']
   \<and> length (conversation (snd (uploadFiles
        (Response True (JsonNull ''Cannot read properties of null''))
        (snd (run select_after_duplicates initial_state))))) = 1"
  by (simp add: select_after_duplicates_def duplicate_upload_def example_ok_def
        example_data_def example_file_def initial_state_def checkHealth_def uploadFiles_def
        askQuestion_def removeDocument_def healthy_def Let_def trim_def js_whitespace_def)



section \<open>Properties of the chunker\<close>

lemma windows_nth:
  "0 < step \<Longrightarrow> i < length (windows chunk_size step t) \<Longrightarrow>
     windows chunk_size step t ! i = take chunk_size (drop (i * step) t)"
proof (induction chunk_size step t arbitrary: i rule: windows.induct)
  case (1 chunk_size step t)
  show ?case
  proof (cases "t = [] \<or> length t \<le> chunk_size")
    case True
    with "1.prems" show ?thesis
      by (auto simp: windows.simps [of chunk_size step t])
  next
    case False
    then have unfold: "windows chunk_size step t =
        take chunk_size t # windows chunk_size step (drop step t)"
      using "1.prems"(1) by (simp add: windows.simps [of chunk_size step t])
    show ?thesis
    proof (cases i)
      case 0
      then show ?thesis by (simp add: unfold)
    next
      case (Suc j)
      with "1.prems" unfold have "j < length (windows chunk_size step (drop step t))"
        by simp
      with "1.IH" [of j] False "1.prems"(1)
      have "windows chunk_size step (drop step t) ! j =
              take chunk_size (drop (j * step) (drop step t))"
        by simp
      then show ?thesis
        by (simp add: unfold Suc add.commute)
    qed
  qed
qed

lemma windows_bound: "w \<in> set (windows chunk_size step t) \<Longrightarrow> length w \<le> chunk_size"
proof (induction chunk_size step t rule: windows.induct)
  case (1 chunk_size step t)
  then show ?case
    by (auto simp: windows.simps [of chunk_size step t] split: if_splits)
qed

lemma windows_tail_cover:
  "0 < step \<Longrightarrow> chunk_size = overlap + step \<Longrightarrow>
     concat (map (drop overlap) (windows chunk_size step t)) = drop overlap t"
proof (induction chunk_size step t rule: windows.induct)
  case (1 chunk_size step t)
  show ?case
  proof (cases "t = [] \<or> length t \<le> chunk_size")
    case True
    then show ?thesis
      by (auto simp: windows.simps [of chunk_size step t])
  next
    case False
    then have unfold: "windows chunk_size step t =
        take chunk_size t # windows chunk_size step (drop step t)"
      using "1.prems"(1) by (simp add: windows.simps [of chunk_size step t])
    from "1.IH" False "1.prems"
    have "concat (map (drop overlap) (windows chunk_size step (drop step t))) =
            drop overlap (drop step t)"
      by simp
    then have "concat (map (drop overlap) (windows chunk_size step t)) =
            drop overlap (take chunk_size t) @ drop overlap (drop step t)"
      by (simp add: unfold)
    also have "drop overlap (drop step t) = drop chunk_size t"
      using "1.prems"(2) by (simp add: add.commute)
    finally have "concat (map (drop overlap) (windows chunk_size step t)) =
            drop overlap (take chunk_size t) @ drop chunk_size t" .
    moreover have "drop overlap (take chunk_size t @ drop chunk_size t) =
            drop overlap (take chunk_size t) @ drop chunk_size t"
      using "1.prems"(2) False by (simp del: append_take_drop_id)
    ultimately show ?thesis by simp
  qed
qed

lemma windows_cover:
  assumes "0 < step" and "chunk_size = overlap + step"
  shows "join_spans overlap (windows chunk_size step t) = t"
proof (cases "t = [] \<or> length t \<le> chunk_size")
  case True
  then show ?thesis
    by (auto simp: join_spans_def windows.simps [of chunk_size step t])
next
  case False
  then have "windows chunk_size step t =
      take chunk_size t # windows chunk_size step (drop step t)"
    using assms(1) by (simp add: windows.simps [of chunk_size step t])
  then have "join_spans overlap (windows chunk_size step t) =
      take chunk_size t @ drop overlap (drop step t)"
    using windows_tail_cover [OF assms, of "drop step t"] by (simp add: join_spans_def)
  then show ?thesis
    using assms(2) by (simp add: add.commute)
qed

text \<open>
  Claim C8. For every text and every valid configuration the chunker succeeds, its
  \<open>i\<close>-th window is the \<open>chunk_size\<close> characters that start at position
  \<open>i * (chunk_size - overlap)\<close> (fewer at the end of the text), the chunks joined
  without their overlap regions give the text back, and no chunk is longer than
  \<open>chunk_size\<close>.
\<close>

theorem chunk_windows_cover:
  assumes "0 < chunk_size" and "0 < overlap" and "overlap < chunk_size"
  shows "\<exists>cs. chunk text chunk_size overlap = Inr cs
           \<and> (\<forall>i < length cs.
                 cs ! i = take (nat chunk_size) (drop (i * nat (chunk_size - overlap)) text))
           \<and> join_spans (nat overlap) cs = text
           \<and> (\<forall>c \<in> set cs. int (length c) \<le> chunk_size)"
proof -
  let ?cs = "windows (nat chunk_size) (nat (chunk_size - overlap)) text"
  have step: "0 < nat (chunk_size - overlap)"
    using assms by simp
  have size: "nat chunk_size = nat overlap + nat (chunk_size - overlap)"
    using assms by simp
  have "chunk text chunk_size overlap = Inr ?cs"
    using assms by (simp add: chunk_def)
  moreover have "\<forall>i < length ?cs.
      ?cs ! i = take (nat chunk_size) (drop (i * nat (chunk_size - overlap)) text)"
    using windows_nth [OF step] by blast
  moreover have "join_spans (nat overlap) ?cs = text"
    using windows_cover [OF step size] .
  moreover have "\<forall>c \<in> set ?cs. int (length c) \<le> chunk_size"
    using windows_bound [of _ "nat chunk_size"] assms(1) by fastforce
  ultimately show ?thesis by blast
qed

theorem chunk_windows_cover_witness:
  "(0::int) < 10 \<and> (0::int) < 3 \<and> (3::int) < 10
   \<and> chunk ''Paris is the capital of France.'' 10 3 =
       Inr [''Paris is t'', ''s the capi'', ''apital of '', ''of France.'']
   \<and> join_spans (nat 3) [''Paris is t'', ''s the capi'', ''apital of '', ''of France.''] =
       ''Paris is the capital of France.''"
  using chunk_windows_cover [of 10 3 "''Paris is the capital of France.''"]
  by (simp add: chunk_def join_spans_def windows.simps)

end
